theory Spec2Isabelle
  imports Complex_Main
begin

section \<open>Strings\<close>

text \<open>
  A JavaScript string is modelled as a \<^typ>\<open>string\<close>, one \<^typ>\<open>char\<close> per UTF-16
  code unit, so that \<^const>\<open>length\<close> is the \<^verbatim>\<open>.length\<close> of the source.
\<close>

text \<open>\<^verbatim>\<open>s.startsWith(t)\<close>\<close>

fun startsWith :: "string \<Rightarrow> string \<Rightarrow> bool" where
  "startsWith s [] = True"
| "startsWith [] (c # t) = False"
| "startsWith (a # s) (c # t) = (a = c \<and> startsWith s t)"

text \<open>\<^verbatim>\<open>s.includes(t)\<close>: \<open>t\<close> occurs in \<open>s\<close> as a contiguous run.\<close>

fun str_includes :: "string \<Rightarrow> string \<Rightarrow> bool" where
  "str_includes [] t = (t = [])"
| "str_includes (a # s) t = (startsWith (a # s) t \<or> str_includes s t)"


text \<open>The decimal rendering of a non-negative integer inside a template literal. The
  digit table is only read at positions below 10.\<close>

definition digit_char :: "nat \<Rightarrow> char" where
  "digit_char d = ''0123456789'' ! d"

fun show_nat :: "nat \<Rightarrow> string" where
  "show_nat n = (if n < 10 then [digit_char n] else show_nat (n div 10) @ [digit_char (n mod 10)])"

declare show_nat.simps [simp del]

section \<open>The client instance and its construction (api.ts, config.js)\<close>

definition BASE_URL :: string where
  "BASE_URL = ''https://api.bfl.ai''"

definition MAX_RETRIES :: nat where
  "MAX_RETRIES = 3"

text \<open>The part of \<^verbatim>\<open>process.env\<close> the code reads.\<close>

record environment =
  BFL_API_KEY :: "string option"
  NODE_ENV :: "string option"

text \<open>
  \<^verbatim>\<open>BflApiOptions\<close>: a field left out (\<^verbatim>\<open>undefined\<close>) is \<open>None\<close> and takes the default of the
  destructuring pattern. The log level only configures the logger and is left out.
\<close>

record bfl_api_options =
  opt_apiKey :: "string option"
  opt_baseUrl :: "string option"

record bfl_api =
  apiKey :: string
  baseUrl :: string

datatype construct_error =
  InsecureBaseUrl     \<comment> \<open>\<^verbatim>\<open>API base URL must use HTTPS protocol for security\<close>\<close>
| ApiKeyNotFound      \<comment> \<open>the error of \<^verbatim>\<open>getBflApiKey\<close>\<close>

text \<open>\<^verbatim>\<open>getBflApiKey()\<close> called without argument: the environment variable, or an error when
  it is unset or empty.\<close>

definition getBflApiKey :: "environment \<Rightarrow> construct_error + string" where
  "getBflApiKey env =
     (case BFL_API_KEY env of
        None \<Rightarrow> Inl ApiKeyNotFound
      | Some k \<Rightarrow> if k = [] then Inl ApiKeyNotFound else Inr k)"

text \<open>
  The constructor. \<^verbatim>\<open>baseUrl && !baseUrl.startsWith('https://')\<close>: the empty string is falsy,
  so it is not checked. \<^verbatim>\<open>apiKey || getBflApiKey()\<close>: a missing or empty key option falls
  back to the environment.
\<close>

definition construct :: "environment \<Rightarrow> bfl_api_options \<Rightarrow> construct_error + bfl_api" where
  "construct env opts =
     (let url = (case opt_baseUrl opts of None \<Rightarrow> BASE_URL | Some u \<Rightarrow> u) in
      if url \<noteq> [] \<and> \<not> startsWith url ''https://'' then Inl InsecureBaseUrl
      else
        (case (case opt_apiKey opts of
                 None \<Rightarrow> getBflApiKey env
               | Some k \<Rightarrow> if k = [] then getBflApiKey env else Inr k) of
           Inl e \<Rightarrow> Inl e
         | Inr k \<Rightarrow> Inr \<lparr>apiKey = k, baseUrl = url\<rparr>))"

text \<open>\<^verbatim>\<open>_verifyApiKey\<close>: throws when the key is empty.\<close>

definition verifyApiKey :: "bfl_api \<Rightarrow> bool" where
  "verifyApiKey api = (apiKey api \<noteq> [])"


section \<open>The request facade (api.ts)\<close>

datatype http_method = GET | POST | OtherMethod string

text \<open>What is handed to the HTTP client: the URL and the request configuration. A
  configuration key that is not passed is \<open>None\<close>.\<close>

record http_request =
  req_method :: http_method
  req_url :: string
  req_headers :: "(string \<times> string) list"
  req_body :: "string option"
  req_timeout :: "nat option"
  req_maxRedirects :: "nat option"

text \<open>\<^verbatim>\<open>TaskResult\<close>: the body of a status response.\<close>

record result_payload =
  sample :: "string option"
  result_error :: "string option"

record task_result =
  task_id :: string
  status :: string
  result :: "result_payload option"

text \<open>
  The body of an error response: \<^verbatim>\<open>detail\<close> is a string or an object, the object carried
  as its \<^verbatim>\<open>JSON.stringify\<close> rendering.
\<close>

datatype detail_value = DetailText string | DetailObject string

record response_data =
  detail :: "detail_value option"
  data_error :: "string option"

text \<open>An error of the HTTP client: its message, and the status and body of the response
  when there was one.\<close>

record axios_error =
  message :: string
  response :: "(nat \<times> response_data) option"

text \<open>What the HTTP client does with one request.\<close>

datatype axios_reply = Resolves task_result | Rejects axios_error

text \<open>The \<^verbatim>\<open>genericMessages\<close> table of \<^verbatim>\<open>_sanitizeErrorMessage\<close>.\<close>

definition genericMessages :: "(nat \<times> string) list" where
  "genericMessages =
     [(400, ''Invalid request parameters''),
      (401, ''Authentication failed''),
      (403, ''Access forbidden''),
      (404, ''Resource not found''),
      (422, ''Invalid parameters''),
      (429, ''Rate limit exceeded''),
      (500, ''Service error''),
      (502, ''Service temporarily unavailable''),
      (503, ''Service temporarily unavailable'')]"

text \<open>\<^verbatim>\<open>a || b\<close> on optional strings: the first that is present and not empty.\<close>

definition truthy :: "string option \<Rightarrow> bool" where
  "truthy v = (case v of None \<Rightarrow> False | Some s \<Rightarrow> s \<noteq> [])"

definition sanitizeErrorMessage :: "environment \<Rightarrow> axios_error \<Rightarrow> nat \<Rightarrow> string" where
  "sanitizeErrorMessage env err st =
     (if NODE_ENV env = Some ''production'' then
        (case map_of genericMessages st of Some m \<Rightarrow> m | None \<Rightarrow> ''An error occurred'')
      else
        (case response err of
           None \<Rightarrow> message err
         | Some (_, d) \<Rightarrow>
             (case detail d of
                Some (DetailObject js) \<Rightarrow> js
              | Some (DetailText t) \<Rightarrow>
                  if t \<noteq> [] then t
                  else if truthy (data_error d) then the (data_error d) else message err
              | None \<Rightarrow> if truthy (data_error d) then the (data_error d) else message err)))"

text \<open>Sleeps and requests, in the order the code performs them.\<close>

datatype event = Request http_request | Pause rat

text \<open>
  \<^verbatim>\<open>_makeRequest\<close>, given what the HTTP client replies. The result is the request issued
  and either the message of the error thrown or the response body.
\<close>

definition makeRequest ::
  "environment \<Rightarrow> bfl_api \<Rightarrow> http_method \<Rightarrow> string \<Rightarrow> string option \<Rightarrow> axios_reply
     \<Rightarrow> event list \<times> (string + task_result)" where
  "makeRequest env api m endpoint body reply =
     (let url = baseUrl api @ endpoint;
          headers = [(''accept'', ''application/json''),
                     (''x-key'', apiKey api),
                     (''Content-Type'', ''application/json'')];
          req = \<lparr>req_method = m, req_url = url, req_headers = headers,
                  req_body = (if m = POST then body else None),
                  req_timeout = Some 30000, req_maxRedirects = Some 5\<rparr>
      in case m of
           OtherMethod name \<Rightarrow> ([], Inl (''Unsupported HTTP method: '' @ name))
         | _ \<Rightarrow>
           (case reply of
              Resolves r \<Rightarrow> ([Request req], Inr r)
            | Rejects err \<Rightarrow>
                ([Request req],
                 Inl (case response err of
                        None \<Rightarrow> message err
                      | Some (st, _) \<Rightarrow>
                          if st = 401 then ''Authentication failed. Please check your API key.''
                          else if st = 422 then ''Invalid parameters: '' @ sanitizeErrorMessage env err st
                          else if st = 429 then
                            ''Rate limit exceeded. Please wait before making more requests.''
                          else if st = 502 \<or> st = 503 then
                            ''Service temporarily unavailable ('' @ show_nat st @ ''). Please retry.''
                          else ''HTTP '' @ show_nat st @ '': '' @ sanitizeErrorMessage env err st))))"


text \<open>
  \<^verbatim>\<open>getResult\<close>: one status fetch. With a polling URL (\<^verbatim>\<open>if (pollingUrl)\<close>: present and
  not empty) the request goes to the HTTP client directly, with headers only; without
  one it goes through \<^verbatim>\<open>_makeRequest\<close>. An empty key throws before any request.
\<close>

definition getResult ::
  "environment \<Rightarrow> bfl_api \<Rightarrow> string \<Rightarrow> string option \<Rightarrow> axios_reply
     \<Rightarrow> event list \<times> (string + task_result)" where
  "getResult env api taskId pollingUrl reply =
     (if \<not> verifyApiKey api then
        ([], Inl (''API key not set. Please provide apiKey during initialization ''
                  @ ''or set BFL_API_KEY environment variable.''))
      else if truthy pollingUrl then
        ([Request \<lparr>req_method = GET, req_url = the pollingUrl,
                    req_headers = [(''accept'', ''application/json''), (''x-key'', apiKey api)],
                    req_body = None, req_timeout = None, req_maxRedirects = None\<rparr>],
         (case reply of Resolves r \<Rightarrow> Inr r | Rejects err \<Rightarrow> Inl (message err)))
      else makeRequest env api GET (''/v1/get_result?id='' @ taskId) None reply)"

section \<open>Polling (api.ts, utils.js)\<close>

text \<open>\<^verbatim>\<open>WaitResultOptions\<close> after the defaults of the destructuring pattern are applied. Times
  in seconds are rationals (they may be fractions of a second); \<^verbatim>\<open>maxRetries\<close> is a count.
  The spinner only prints and is left out.\<close>

record wait_options =
  pollingUrl :: "string option"
  timeout :: rat
  pollInterval :: rat
  maxRetries :: nat

definition default_options :: wait_options where
  "default_options = \<lparr>pollingUrl = None, timeout = 300, pollInterval = 2, maxRetries = MAX_RETRIES\<rparr>"

text \<open>The errors thrown inside the inner \<^verbatim>\<open>try\<close> block of \<^verbatim>\<open>waitForResult\<close>, which its
  \<^verbatim>\<open>catch\<close> block receives and classifies by their message.\<close>

datatype poll_error =
  GenerationFailed string   \<comment> \<open>status \<^verbatim>\<open>Error\<close>, with the failure reason\<close>
| ContentWasModerated       \<comment> \<open>status \<^verbatim>\<open>Content Moderated\<close>\<close>
| RequestError string       \<comment> \<open>thrown by \<^verbatim>\<open>getResult\<close>, with its message\<close>

fun error_message :: "poll_error \<Rightarrow> string" where
  "error_message (GenerationFailed reason) = ''Generation failed: '' @ reason"
| "error_message ContentWasModerated = ''Content was moderated. Please revise your prompt.''"
| "error_message (RequestError m) = m"

text \<open>The errors that leave \<^verbatim>\<open>waitForResult\<close>.\<close>

datatype failure =
  Timeout rat               \<comment> \<open>\<^verbatim>\<open>Timeout after ${timeout} seconds\<close>\<close>
| Rethrown poll_error       \<comment> \<open>\<^verbatim>\<open>throw error\<close> in the \<^verbatim>\<open>catch\<close> block\<close>
| NegativePause             \<comment> \<open>\<^verbatim>\<open>Seconds cannot be negative\<close>, from \<^verbatim>\<open>pause\<close>\<close>

datatype outcome = Completed task_result | Failed failure

definition isTransient :: "string \<Rightarrow> bool" where
  "isTransient m =
     (str_includes m ''503'' \<or> str_includes m ''502'' \<or>
      str_includes m ''ECONNRESET'' \<or> str_includes m ''ETIMEDOUT'')"

definition isModeration :: "string \<Rightarrow> bool" where
  "isModeration m = (str_includes m ''moderated'' \<or> str_includes m ''Content Moderated'')"

text \<open>How the \<^verbatim>\<open>try\<close> block ends: by \<^verbatim>\<open>return\<close>, by falling through to the end of the
  block, or by a \<^verbatim>\<open>throw\<close>.\<close>

datatype attempt = Returned task_result | KeepPolling | Threw poll_error

text \<open>The status check. \<^verbatim>\<open>result.result?.error || 'Unknown error'\<close>. Every status other
  than the three terminal ones (so \<^verbatim>\<open>Pending\<close> and \<^verbatim>\<open>Request Moderated\<close>) falls through.\<close>

definition check_status :: "task_result \<Rightarrow> attempt" where
  "check_status r =
     (if status r = ''Ready'' then Returned r
      else if status r = ''Error'' then
        Threw (GenerationFailed
          (case result r of
             None \<Rightarrow> ''Unknown error''
           | Some p \<Rightarrow> if truthy (result_error p) then the (result_error p) else ''Unknown error''))
      else if status r = ''Content Moderated'' then Threw ContentWasModerated
      else KeepPolling)"

definition attempt ::
  "environment \<Rightarrow> bfl_api \<Rightarrow> string \<Rightarrow> string option \<Rightarrow> axios_reply \<Rightarrow> event list \<times> attempt" where
  "attempt env api taskId purl reply =
     (case getResult env api taskId purl reply of
        (evs, Inl m) \<Rightarrow> (evs, Threw (RequestError m))
      | (evs, Inr r) \<Rightarrow> (evs, check_status r))"

text \<open>\<^verbatim>\<open>pause(seconds)\<close> of utils.js: throws on a negative duration.\<close>

definition pause :: "rat \<Rightarrow> failure + event list" where
  "pause seconds = (if seconds < 0 then Inl NegativePause else Inr [Pause seconds])"

text \<open>
  One pass through the body of \<^verbatim>\<open>while (true)\<close>. \<open>now\<close> is what \<^verbatim>\<open>Date.now()\<close> returns at
  the top of the pass (milliseconds) and \<open>reply\<close> what the HTTP client does with the request
  of this pass. The result is the events of the pass and either the outcome that ends
  \<^verbatim>\<open>waitForResult\<close> or the value of \<^verbatim>\<open>retries\<close> with which the next pass starts.
\<close>

definition iteration ::
  "environment \<Rightarrow> bfl_api \<Rightarrow> string \<Rightarrow> wait_options \<Rightarrow> int \<Rightarrow> nat \<Rightarrow> int \<Rightarrow> axios_reply
     \<Rightarrow> event list \<times> (outcome + nat)" where
  "iteration env api taskId opts startTime retries now reply =
     (let elapsed = of_int (now - startTime) / 1000 in
      if elapsed > timeout opts then ([], Inl (Failed (Timeout (timeout opts))))
      else
        (case attempt env api taskId (pollingUrl opts) reply of
           (evs, Returned r) \<Rightarrow> (evs, Inl (Completed r))
         | (evs, KeepPolling) \<Rightarrow>
             (case pause (pollInterval opts) of
                Inl f \<Rightarrow> (evs, Inl (Failed f))
              | Inr ps \<Rightarrow> (evs @ ps, Inr 0))
         | (evs, Threw e) \<Rightarrow>
             if isModeration (error_message e) then (evs, Inl (Failed (Rethrown e)))
             else if isTransient (error_message e) \<and> retries < maxRetries opts then
               (case pause (2 ^ (retries + 1)) of
                  Inl f \<Rightarrow> (evs, Inl (Failed f))
                | Inr ps \<Rightarrow> (evs @ ps, Inr (retries + 1)))
             else (evs, Inl (Failed (Rethrown e)))))"

text \<open>
  The loop, over the clock readings and replies of the passes to come. Where the list
  ends the model says nothing about the run: the outcome is \<open>None\<close>.
\<close>

fun poll_loop ::
  "environment \<Rightarrow> bfl_api \<Rightarrow> string \<Rightarrow> wait_options \<Rightarrow> int \<Rightarrow> nat \<Rightarrow> (int \<times> axios_reply) list
     \<Rightarrow> outcome option \<times> event list" where
  "poll_loop env api taskId opts startTime retries [] = (None, [])"
| "poll_loop env api taskId opts startTime retries ((now, reply) # rest) =
     (case iteration env api taskId opts startTime retries now reply of
        (evs, Inl out) \<Rightarrow> (Some out, evs)
      | (evs, Inr retries') \<Rightarrow>
          (case poll_loop env api taskId opts startTime retries' rest of
             (res, tr) \<Rightarrow> (res, evs @ tr)))"

text \<open>\<^verbatim>\<open>waitForResult\<close>: \<^verbatim>\<open>startTime = Date.now()\<close>, \<^verbatim>\<open>retries = 0\<close>, then the loop.\<close>

definition waitForResult ::
  "environment \<Rightarrow> bfl_api \<Rightarrow> string \<Rightarrow> wait_options \<Rightarrow> int \<times> (int \<times> axios_reply) list
     \<Rightarrow> outcome option \<times> event list" where
  "waitForResult env api taskId opts world =
     poll_loop env api taskId opts (fst world) 0 (snd world)"

text \<open>Reading a trace: the number of requests and the sleeps, in order.\<close>

fun is_request :: "event \<Rightarrow> bool" where
  "is_request (Request _) = True"
| "is_request (Pause _) = False"

definition fetches :: "event list \<Rightarrow> nat" where
  "fetches tr = length (filter is_request tr)"

fun sleeps :: "event list \<Rightarrow> rat list" where
  "sleeps [] = []"
| "sleeps (Request _ # tr) = sleeps tr"
| "sleeps (Pause s # tr) = s # sleeps tr"

text \<open>Conditions on the environment of a run, used to state the properties below.\<close>

text \<open>The timeout check of a pass lets the pass go on: \<^verbatim>\<open>elapsed > timeout\<close> is false.\<close>

definition in_budget :: "wait_options \<Rightarrow> int \<Rightarrow> int \<Rightarrow> bool" where
  "in_budget opts startTime now = (\<not> (of_int (now - startTime) / 1000 > timeout opts))"

text \<open>A reply that is a status response with a keep-waiting status.\<close>

definition keep_waiting :: "axios_reply \<Rightarrow> bool" where
  "keep_waiting reply =
     (case reply of
        Resolves r \<Rightarrow> status r = ''Pending'' \<or> status r = ''Request Moderated''
      | Rejects _ \<Rightarrow> False)"

text \<open>A reply on which \<^verbatim>\<open>getResult\<close> throws an error that the \<^verbatim>\<open>catch\<close> block classifies as
  transient and not as moderation.\<close>

definition transient_failure ::
  "environment \<Rightarrow> bfl_api \<Rightarrow> string \<Rightarrow> wait_options \<Rightarrow> axios_reply \<Rightarrow> bool" where
  "transient_failure env api taskId opts reply =
     (case snd (getResult env api taskId (pollingUrl opts) reply) of
        Inl m \<Rightarrow> isTransient m \<and> \<not> isModeration m
      | Inr _ \<Rightarrow> False)"

section \<open>Remote-origin validation\<close>

text \<open>
  Modelled from the spec: the validator of image URLs. The test suite exercises it, but
  its implementation is not among the sources at hand, so every definition of this
  section follows section 4.2 of the specification, step by step.
\<close>

datatype addr_class = Loopback | Private

datatype dns_failure = NotFound | OtherFailure

datatype reason =
  NotHttps
| HostnameBlocklisted
| LiteralPrivateAddress addr_class
| ResolvesToPrivateAddress
| Ipv4MappedIpv6Bypass
| MalformedUrl
| ResolutionFailed dns_failure


























section \<open>Sample data\<close>

text \<open>The instance, responses and errors used in the test suite, for concrete runs.\<close>

definition sample_env :: environment where
  "sample_env = \<lparr>BFL_API_KEY = None, NODE_ENV = None\<rparr>"

definition sample_api :: bfl_api where
  "sample_api = \<lparr>apiKey = ''test_api_key_for_unit_tests'', baseUrl = BASE_URL\<rparr>"

definition sample_task :: "string \<Rightarrow> task_result" where
  "sample_task st = \<lparr>task_id = ''task_123'', status = st, result = None\<rparr>"

definition sample_ready :: task_result where
  "sample_ready = \<lparr>task_id = ''task_123'', status = ''Ready'',
     result = Some \<lparr>sample = Some ''https://example.com/image.png'', result_error = None\<rparr>\<rparr>"

definition sample_error :: "string \<Rightarrow> task_result" where
  "sample_error reason = \<lparr>task_id = ''task_123'', status = ''Error'',
     result = Some \<lparr>sample = None, result_error = Some reason\<rparr>\<rparr>"

definition transport_error :: "string \<Rightarrow> axios_reply" where
  "transport_error m = Rejects \<lparr>message = m, response = None\<rparr>"

definition sample_request :: http_request where
  "sample_request = \<lparr>req_method = GET, req_url = ''https://api.bfl.ai/v1/get_result?id=task_123'',
     req_headers = [(''accept'', ''application/json''), (''x-key'', ''test_api_key_for_unit_tests''),
                    (''Content-Type'', ''application/json'')],
     req_body = None, req_timeout = Some 30000, req_maxRedirects = Some 5\<rparr>"

section \<open>The passes of the polling loop\<close>


lemma iteration_timeout:
  "\<not> in_budget opts startTime now \<Longrightarrow>
   iteration env api taskId opts startTime retries now reply = ([], Inl (Failed (Timeout (timeout opts))))"
  by (simp add: iteration_def in_budget_def)

lemma iteration_returned:
  "in_budget opts startTime now \<Longrightarrow> attempt env api taskId (pollingUrl opts) reply = (evs, Returned r) \<Longrightarrow>
   iteration env api taskId opts startTime retries now reply = (evs, Inl (Completed r))"
  by (simp add: iteration_def in_budget_def)

lemma iteration_keep_polling:
  "in_budget opts startTime now \<Longrightarrow> attempt env api taskId (pollingUrl opts) reply = (evs, KeepPolling) \<Longrightarrow>
   0 \<le> pollInterval opts \<Longrightarrow>
   iteration env api taskId opts startTime retries now reply = (evs @ [Pause (pollInterval opts)], Inr 0)"
  by (simp add: iteration_def in_budget_def pause_def)

lemma iteration_moderation:
  "in_budget opts startTime now \<Longrightarrow> attempt env api taskId (pollingUrl opts) reply = (evs, Threw e) \<Longrightarrow>
   isModeration (error_message e) \<Longrightarrow>
   iteration env api taskId opts startTime retries now reply = (evs, Inl (Failed (Rethrown e)))"
  by (simp add: iteration_def in_budget_def)

lemma iteration_retry:
  "in_budget opts startTime now \<Longrightarrow> attempt env api taskId (pollingUrl opts) reply = (evs, Threw e) \<Longrightarrow>
   \<not> isModeration (error_message e) \<Longrightarrow> isTransient (error_message e) \<Longrightarrow> retries < maxRetries opts \<Longrightarrow>
   iteration env api taskId opts startTime retries now reply = (evs @ [Pause (2 ^ (retries + 1))], Inr (retries + 1))"
  by (simp add: iteration_def in_budget_def pause_def)


lemma getResult_events:
  "apiKey api \<noteq> [] \<Longrightarrow> \<exists>req. fst (getResult env api taskId purl reply) = [Request req]"
  by (cases reply) (simp_all add: getResult_def makeRequest_def verifyApiKey_def Let_def)

lemma getResult_Resolved:
  "apiKey api \<noteq> [] \<Longrightarrow> snd (getResult env api taskId purl (Resolves r)) = Inr r"
  by (simp add: getResult_def makeRequest_def verifyApiKey_def Let_def)

lemma attempt_error:
  "getResult env api taskId purl reply = (evs, Inl m) \<Longrightarrow>
   attempt env api taskId purl reply = (evs, Threw (RequestError m))"
  by (simp add: attempt_def)

lemma attempt_result:
  "getResult env api taskId purl reply = (evs, Inr r) \<Longrightarrow>
   attempt env api taskId purl reply = (evs, check_status r)"
  by (simp add: attempt_def)

lemma check_status_waiting:
  "status r = ''Pending'' \<or> status r = ''Request Moderated'' \<Longrightarrow> check_status r = KeepPolling"
  by (auto simp add: check_status_def)

lemma check_status_ready: "status r = ''Ready'' \<Longrightarrow> check_status r = Returned r"
  by (simp add: check_status_def)


lemma poll_loop_done:
  "iteration env api taskId opts startTime retries now reply = (evs, Inl out) \<Longrightarrow>
   poll_loop env api taskId opts startTime retries ((now, reply) # rest) = (Some out, evs)"
  by simp

lemma poll_loop_again:
  "iteration env api taskId opts startTime retries now reply = (evs, Inr retries') \<Longrightarrow>
   poll_loop env api taskId opts startTime retries ((now, reply) # rest) =
     (case poll_loop env api taskId opts startTime retries' rest of (res, tr) \<Rightarrow> (res, evs @ tr))"
  by simp

declare poll_loop.simps(2) [simp del]

lemma fetches_append: "fetches (a @ b) = fetches a + fetches b"
  by (simp add: fetches_def)

lemma fetches_single: "fetches [Request req] = 1" "fetches [Pause s] = 0" "fetches [] = 0"
  by (simp_all add: fetches_def)

lemma sleeps_append: "sleeps (a @ b) = sleeps a @ sleeps b"
  by (induction a rule: sleeps.induct) simp_all

lemma attempt_waiting:
  assumes key: "apiKey api \<noteq> []" and kw: "keep_waiting reply"
  shows "\<exists>req. attempt env api taskId purl reply = ([Request req], KeepPolling)"
proof -
  from kw obtain r where r: "reply = Resolves r" "status r = ''Pending'' \<or> status r = ''Request Moderated''"
    by (cases reply) (auto simp add: keep_waiting_def)
  from getResult_events [OF key] obtain req where
    "fst (getResult env api taskId purl reply) = [Request req]" by blast
  moreover have "snd (getResult env api taskId purl reply) = Inr r"
    using getResult_Resolved [OF key] r by simp
  ultimately have "getResult env api taskId purl reply = ([Request req], Inr r)"
    by (simp add: prod_eq_iff)
  then show ?thesis using check_status_waiting [OF r(2)] by (auto simp add: attempt_result)
qed

lemma attempt_ready:
  assumes key: "apiKey api \<noteq> []" and st: "status r = ''Ready''"
  shows "\<exists>req. attempt env api taskId purl (Resolves r) = ([Request req], Returned r)"
proof -
  from getResult_events [OF key] obtain req where
    "fst (getResult env api taskId purl (Resolves r)) = [Request req]" by blast
  then have "getResult env api taskId purl (Resolves r) = ([Request req], Inr r)"
    using getResult_Resolved [OF key] by (simp add: prod_eq_iff)
  then show ?thesis using check_status_ready [OF st] by (auto simp add: attempt_result)
qed

lemma waiting_then_ready:
  assumes key: "apiKey api \<noteq> []" and pi: "0 \<le> pollInterval opts"
    and rdy: "in_budget opts startTime nowN" "status ready = ''Ready''"
  shows "(\<forall>(now, reply) \<in> set waits. in_budget opts startTime now \<and> keep_waiting reply) \<Longrightarrow>
    \<exists>tr. poll_loop env api taskId opts startTime retries (waits @ (nowN, Resolves ready) # rest)
            = (Some (Completed ready), tr)
         \<and> fetches tr = length waits + 1
         \<and> sleeps tr = replicate (length waits) (pollInterval opts)"
proof (induction waits arbitrary: retries)
  case Nil
  from attempt_ready [OF key rdy(2)] obtain req where
    "attempt env api taskId (pollingUrl opts) (Resolves ready) = ([Request req], Returned ready)" by blast
  from iteration_returned [OF rdy(1) this]
  have "poll_loop env api taskId opts startTime retries ((nowN, Resolves ready) # rest)
          = (Some (Completed ready), [Request req])"
    by (rule poll_loop_done)
  then show ?case by (simp add: fetches_single)
next
  case (Cons w waits)
  obtain now reply where w: "w = (now, reply)" by (cases w)
  from Cons.prems w have b: "in_budget opts startTime now" and kw: "keep_waiting reply"
    and rest: "\<forall>(now, reply) \<in> set waits. in_budget opts startTime now \<and> keep_waiting reply"
    by auto
  from attempt_waiting [OF key kw] obtain req where
    "attempt env api taskId (pollingUrl opts) reply = ([Request req], KeepPolling)" by blast
  from iteration_keep_polling [OF b this pi]
  have step: "poll_loop env api taskId opts startTime retries ((now, reply) # waits @ (nowN, Resolves ready) # rest)
      = (case poll_loop env api taskId opts startTime 0 (waits @ (nowN, Resolves ready) # rest) of
           (res, tr) \<Rightarrow> (res, ([Request req] @ [Pause (pollInterval opts)]) @ tr))"
    by (rule poll_loop_again)
  from Cons.IH [OF rest, of 0] obtain tr where
    tr: "poll_loop env api taskId opts startTime 0 (waits @ (nowN, Resolves ready) # rest) = (Some (Completed ready), tr)"
        "fetches tr = length waits + 1" "sleeps tr = replicate (length waits) (pollInterval opts)"
    by blast
  show ?case using step tr w by (simp add: fetches_def)
qed


lemma attempt_transient:
  assumes key: "apiKey api \<noteq> []" and tf: "transient_failure env api taskId opts reply"
  shows "\<exists>req m. attempt env api taskId (pollingUrl opts) reply = ([Request req], Threw (RequestError m))
           \<and> snd (getResult env api taskId (pollingUrl opts) reply) = Inl m
           \<and> isTransient m \<and> \<not> isModeration m"
proof -
  from tf obtain m where m: "snd (getResult env api taskId (pollingUrl opts) reply) = Inl m"
      "isTransient m" "\<not> isModeration m"
    by (auto simp add: transient_failure_def split: sum.splits)
  from getResult_events [OF key] obtain req where
    "fst (getResult env api taskId (pollingUrl opts) reply) = [Request req]" by blast
  with m(1) have "getResult env api taskId (pollingUrl opts) reply = ([Request req], Inl m)"
    by (simp add: prod_eq_iff)
  then have "attempt env api taskId (pollingUrl opts) reply = ([Request req], Threw (RequestError m))"
    by (rule attempt_error)
  with m show ?thesis by blast
qed


lemma iteration_no_timeout:
  "in_budget opts startTime now \<Longrightarrow>
   iteration env api taskId opts startTime retries now reply \<noteq> (evs, Inl (Failed (Timeout t)))"
  by (auto simp add: iteration_def in_budget_def pause_def split: prod.splits attempt.splits if_splits)

lemma iteration_one_fetch:
  assumes key: "apiKey api \<noteq> []" and b: "in_budget opts startTime now"
  shows "fetches (fst (iteration env api taskId opts startTime retries now reply)) = 1"
proof -
  from getResult_events [OF key] obtain req where
    "fst (getResult env api taskId (pollingUrl opts) reply) = [Request req]" by blast
  then have "fst (attempt env api taskId (pollingUrl opts) reply) = [Request req]"
    by (auto simp add: attempt_def split: prod.splits sum.splits)
  then show ?thesis using b
    by (auto simp add: iteration_def in_budget_def pause_def fetches_def split: prod.splits attempt.splits)
qed

lemma timeout_only_when_exceeded:
  "poll_loop env api taskId opts startTime retries script = (Some (Failed (Timeout t)), tr) \<Longrightarrow>
   \<exists>pre now reply post. script = pre @ (now, reply) # post
      \<and> \<not> in_budget opts startTime now
      \<and> (\<forall>(n, r) \<in> set pre. in_budget opts startTime n)
      \<and> t = timeout opts
      \<and> (apiKey api \<noteq> [] \<longrightarrow> fetches tr = length pre)"
proof (induction script arbitrary: retries tr)
  case Nil
  then show ?case by simp
next
  case (Cons w script)
  obtain now reply where w: "w = (now, reply)" by (cases w)
  show ?case
  proof (cases "in_budget opts startTime now")
    case False
    from iteration_timeout [OF False]
    have "poll_loop env api taskId opts startTime retries ((now, reply) # script)
            = (Some (Failed (Timeout (timeout opts))), [])"
      by (rule poll_loop_done)
    with Cons.prems w have "t = timeout opts" "tr = []" by simp_all
    with False w show ?thesis by (intro exI [of _ "[]"]) (auto simp add: fetches_def)
  next
    case True
    obtain evs nxt where it: "iteration env api taskId opts startTime retries now reply = (evs, nxt)"
      by (cases "iteration env api taskId opts startTime retries now reply")
    show ?thesis
    proof (cases nxt)
      case (Inl out)
      with it have "poll_loop env api taskId opts startTime retries ((now, reply) # script) = (Some out, evs)"
        by (simp add: poll_loop_done)
      with Cons.prems w have "out = Failed (Timeout t)" by simp
      with it Inl iteration_no_timeout [OF True] show ?thesis by blast
    next
      case (Inr retries')
      obtain res tr' where rec: "poll_loop env api taskId opts startTime retries' script = (res, tr')"
        by (cases "poll_loop env api taskId opts startTime retries' script")
      from it Inr have "poll_loop env api taskId opts startTime retries ((now, reply) # script)
          = (case poll_loop env api taskId opts startTime retries' script of (res, tr) \<Rightarrow> (res, evs @ tr))"
        by (simp add: poll_loop_again)
      with rec Cons.prems w have res: "res = Some (Failed (Timeout t))" and tr: "tr = evs @ tr'" by simp_all
      from Cons.IH [OF rec [unfolded res]] obtain pre n r post where
        d: "script = pre @ (n, r) # post" "\<not> in_budget opts startTime n"
           "\<forall>(n, r) \<in> set pre. in_budget opts startTime n" "t = timeout opts"
           "apiKey api \<noteq> [] \<longrightarrow> fetches tr' = length pre"
        by blast
      have f: "apiKey api \<noteq> [] \<longrightarrow> fetches evs = 1"
        using iteration_one_fetch [OF _ True, of api env taskId retries reply] it by simp
      show ?thesis
        using d True w tr f
        by (intro exI [of _ "(now, reply) # pre"] exI [of _ n] exI [of _ r] exI [of _ post])
           (auto simp add: fetches_append)
    qed
  qed
qed

subsection \<open>Retries\<close>

lemma getResult_sample:
  "getResult env sample_api ''task_123'' None reply =
     ([Request sample_request],
      snd (makeRequest env sample_api GET ''/v1/get_result?id=task_123'' None reply))"
  by (cases reply)
     (simp_all add: getResult_def makeRequest_def verifyApiKey_def truthy_def sample_api_def
        sample_request_def BASE_URL_def Let_def)

lemma makeRequest_Resolves:
  "snd (makeRequest env api GET endpoint None (Resolves r)) = Inr r"
  by (simp add: makeRequest_def Let_def)

lemma attempt_sample_error:
  "attempt env sample_api ''task_123'' None (Resolves (sample_error ''upstream returned 503''))
     = ([Request sample_request], Threw (GenerationFailed ''upstream returned 503''))"
  by (simp add: attempt_def getResult_sample makeRequest_Resolves check_status_def sample_error_def truthy_def)

lemma attempt_sample_ready:
  "attempt env sample_api ''task_123'' None (Resolves sample_ready)
     = ([Request sample_request], Returned sample_ready)"
  by (simp add: attempt_def getResult_sample makeRequest_Resolves check_status_def sample_ready_def)

lemma default_fields:
  "pollingUrl default_options = None" "timeout default_options = 300"
  "pollInterval default_options = 2" "maxRetries default_options = 3"
  by (simp_all add: default_options_def MAX_RETRIES_def)

lemma in_budget_default: "in_budget default_options 0 0" "in_budget default_options 0 2100"
  by (simp_all add: in_budget_def default_fields)

lemma poll_loop_retry:
  assumes key: "apiKey api \<noteq> []"
    and b: "in_budget opts startTime now"
    and tf: "transient_failure env api taskId opts reply"
    and lt: "retries < maxRetries opts"
  shows "\<exists>req. poll_loop env api taskId opts startTime retries ((now, reply) # rest) =
           (case poll_loop env api taskId opts startTime (retries + 1) rest of
              (res, tr) \<Rightarrow> (res, [Request req, Pause (2 ^ (retries + 1))] @ tr))"
proof -
  from attempt_transient [OF key tf] obtain req m where
    a: "attempt env api taskId (pollingUrl opts) reply = ([Request req], Threw (RequestError m))"
    and m: "isTransient m" "\<not> isModeration m" by blast
  from iteration_retry [OF b a] m lt
  have "iteration env api taskId opts startTime retries now reply
          = ([Request req] @ [Pause (2 ^ (retries + 1))], Inr (retries + 1))" by simp
  then have "poll_loop env api taskId opts startTime retries ((now, reply) # rest)
      = (case poll_loop env api taskId opts startTime (retries + 1) rest of
           (res, tr) \<Rightarrow> (res, ([Request req] @ [Pause (2 ^ (retries + 1))]) @ tr))"
    by (rule poll_loop_again)
  then show ?thesis by auto
qed




lemma transport_error_transient:
  assumes key: "apiKey api \<noteq> []" and resp: "response err = None \<or> truthy (pollingUrl opts)"
    and tr: "isTransient (message err)" and nm: "\<not> isModeration (message err)"
  shows "transient_failure env api taskId opts (Rejects err)"
  using assms
  by (auto simp add: transient_failure_def getResult_def makeRequest_def verifyApiKey_def Let_def)

section \<open>Terminal statuses\<close>

text \<open>
  C1, where the code departs from it. The error for the status \<^verbatim>\<open>Error\<close> is thrown inside
  the \<^verbatim>\<open>try\<close> block, so the \<^verbatim>\<open>catch\<close> block classifies its message like that of a failed
  fetch. With the failure reason \<^verbatim>\<open>upstream returned 503\<close> the message counts as transient:
  the call sleeps 2 seconds, fetches again, and returns the Ready task of the second
  response.
\<close>

theorem error_status_with_transient_text_is_retried:
  "waitForResult sample_env sample_api ''task_123'' default_options
     (0, [(0, Resolves (sample_error ''upstream returned 503'')), (2100, Resolves sample_ready)])
   = (Some (Completed sample_ready), [Request sample_request, Pause 2, Request sample_request])"
proof -
  have tr: "isTransient (error_message (GenerationFailed ''upstream returned 503''))"
    by (simp add: isTransient_def)
  have nm: "\<not> isModeration (error_message (GenerationFailed ''upstream returned 503''))"
    by (simp add: isModeration_def)
  have "iteration sample_env sample_api ''task_123'' default_options 0 0 0
          (Resolves (sample_error ''upstream returned 503''))
        = ([Request sample_request] @ [Pause (2 ^ (0 + 1))], Inr (0 + 1))"
    by (rule iteration_retry [OF in_budget_default(1) _ nm tr])
       (simp_all add: default_fields attempt_sample_error)
  then have first: "poll_loop sample_env sample_api ''task_123'' default_options 0 0
      ((0, Resolves (sample_error ''upstream returned 503'')) # [(2100, Resolves sample_ready)])
      = (case poll_loop sample_env sample_api ''task_123'' default_options 0 (0 + 1)
                [(2100, Resolves sample_ready)] of
           (res, tr) \<Rightarrow> (res, ([Request sample_request] @ [Pause (2 ^ (0 + 1))]) @ tr))"
    by (rule poll_loop_again)
  have "iteration sample_env sample_api ''task_123'' default_options 0 (0 + 1) 2100
          (Resolves sample_ready) = ([Request sample_request], Inl (Completed sample_ready))"
    by (rule iteration_returned [OF in_budget_default(2)])
       (simp add: default_fields attempt_sample_ready)
  then have "poll_loop sample_env sample_api ''task_123'' default_options 0 (0 + 1)
      ((2100, Resolves sample_ready) # []) = (Some (Completed sample_ready), [Request sample_request])"
    by (rule poll_loop_done)
  with first show ?thesis by (simp add: waitForResult_def)
qed

section \<open>Keep-waiting statuses, moderation errors and transient errors\<close>

text \<open>
  C8. When the status responses are N keep-waiting statuses (\<^verbatim>\<open>Pending\<close> or
  \<^verbatim>\<open>Request Moderated\<close>) followed by \<^verbatim>\<open>Ready\<close>, every pass starting within the timeout, the
  call returns the Ready task after exactly N + 1 requests and exactly N sleeps, each of
  the poll interval; and a keep-waiting response leaves the failure counter at 0,
  whatever it was before.
\<close>

theorem keep_waiting_then_ready:
  assumes key: "apiKey api \<noteq> []" and pi: "0 \<le> pollInterval opts"
    and waits: "\<forall>(now, reply) \<in> set waits. in_budget opts startTime now \<and> keep_waiting reply"
    and rdy: "in_budget opts startTime nowN" "status ready = ''Ready''"
  shows "(\<exists>tr. waitForResult env api taskId opts (startTime, waits @ (nowN, Resolves ready) # rest)
               = (Some (Completed ready), tr)
            \<and> fetches tr = length waits + 1
            \<and> sleeps tr = replicate (length waits) (pollInterval opts))
         \<and> (\<forall>(now, reply) \<in> set waits. \<forall>retries.
               snd (iteration env api taskId opts startTime retries now reply) = Inr 0)"
proof
  show "\<exists>tr. waitForResult env api taskId opts (startTime, waits @ (nowN, Resolves ready) # rest)
               = (Some (Completed ready), tr)
            \<and> fetches tr = length waits + 1
            \<and> sleeps tr = replicate (length waits) (pollInterval opts)"
    using waiting_then_ready [OF key pi rdy waits] by (simp add: waitForResult_def)
next
  show "\<forall>(now, reply) \<in> set waits. \<forall>retries.
          snd (iteration env api taskId opts startTime retries now reply) = Inr 0"
  proof (intro ballI, clarify)
    fix now reply retries
    assume "(now, reply) \<in> set waits"
    with waits have b: "in_budget opts startTime now" and kw: "keep_waiting reply" by auto
    from attempt_waiting [OF key kw] obtain req where
      "attempt env api taskId (pollingUrl opts) reply = ([Request req], KeepPolling)" by blast
    from iteration_keep_polling [OF b this pi]
    show "snd (iteration env api taskId opts startTime retries now reply) = Inr 0" by simp
  qed
qed

theorem keep_waiting_then_ready_witness:
  "\<exists>tr. waitForResult sample_env sample_api ''task_123'' default_options
           (0, [(0, Resolves (sample_task ''Pending'')),
                (2010, Resolves (sample_task ''Request Moderated'')),
                (4020, Resolves sample_ready)])
          = (Some (Completed sample_ready), tr)
        \<and> fetches tr = 3 \<and> sleeps tr = [2, 2]"
proof -
  have key: "apiKey sample_api \<noteq> []" by (simp add: sample_api_def)
  have pi: "0 \<le> pollInterval default_options" by (simp add: default_fields)
  have waits: "\<forall>(now, reply) \<in> set [(0, Resolves (sample_task ''Pending'')),
                                     (2010, Resolves (sample_task ''Request Moderated''))].
                 in_budget default_options 0 now \<and> keep_waiting reply"
    by (simp add: in_budget_def default_fields keep_waiting_def sample_task_def)
  have b: "in_budget default_options 0 4020" by (simp add: in_budget_def default_fields)
  have r: "status sample_ready = ''Ready''" by (simp add: sample_ready_def)
  from keep_waiting_then_ready [OF key pi waits b r, of sample_env "''task_123''" "[]"]
  show ?thesis by (simp add: default_fields numeral_3_eq_3)
qed

text \<open>
  C7. When the status fetch of a pass fails with an error whose text contains
  \<^verbatim>\<open>moderated\<close> or \<^verbatim>\<open>Content Moderated\<close>, the call ends in that pass with this very error,
  whatever the retry counter and the retry limit are and whether or not the text also
  counts as transient: the pass makes exactly one request, there is no sleep and no
  later request, so a failure of the first fetch gives exactly one request.
\<close>

theorem moderation_error_never_retried:
  assumes b: "in_budget opts startTime now"
    and err: "getResult env api taskId (pollingUrl opts) reply = (evs, Inl m)"
    and md: "str_includes m ''moderated'' \<or> str_includes m ''Content Moderated''"
  shows "poll_loop env api taskId opts startTime retries ((now, reply) # rest)
           = (Some (Failed (Rethrown (RequestError m))), evs)
         \<and> waitForResult env api taskId opts (startTime, (now, reply) # rest)
           = (Some (Failed (Rethrown (RequestError m))), evs)
         \<and> sleeps evs = []
         \<and> fetches evs = 1"
proof -
  from md have im: "isModeration (error_message (RequestError m))"
    by (simp add: isModeration_def)
  have key: "apiKey api \<noteq> []"
  proof
    assume "apiKey api = []"
    with err have "m = ''API key not set. Please provide apiKey during initialization ''
                       @ ''or set BFL_API_KEY environment variable.''"
      by (simp add: getResult_def verifyApiKey_def)
    with md show False by simp
  qed
  have it: "\<And>r. iteration env api taskId opts startTime r now reply
                 = (evs, Inl (Failed (Rethrown (RequestError m))))"
    by (rule iteration_moderation [OF b attempt_error [OF err] im])
  have loop: "\<And>r. poll_loop env api taskId opts startTime r ((now, reply) # rest)
                   = (Some (Failed (Rethrown (RequestError m))), evs)"
    by (rule poll_loop_done [OF it])
  have one: "\<exists>req. evs = [Request req]"
    using getResult_events [OF key, of env taskId "pollingUrl opts" reply] err by simp
  have nosleep: "sleeps evs = []"
    using err by (cases reply)
      (auto simp add: getResult_def makeRequest_def Let_def split: if_splits)
  from one have "fetches evs = 1" by (auto simp add: fetches_def)
  with loop nosleep show ?thesis by (simp add: waitForResult_def)
qed

theorem moderation_error_never_retried_witness:
  "isTransient ''503 Content Moderated''
   \<and> waitForResult sample_env sample_api ''task_123'' default_options
        (0, [(0, transport_error ''503 Content Moderated'')])
     = (Some (Failed (Rethrown (RequestError ''503 Content Moderated''))), [Request sample_request])
   \<and> fetches [Request sample_request] = 1"
proof -
  have b: "in_budget default_options 0 0" by (rule in_budget_default)
  have err: "getResult sample_env sample_api ''task_123'' (pollingUrl default_options)
               (transport_error ''503 Content Moderated'')
             = ([Request sample_request], Inl ''503 Content Moderated'')"
    by (simp add: default_fields getResult_sample transport_error_def makeRequest_def Let_def)
  have md: "str_includes ''503 Content Moderated'' ''moderated''
            \<or> str_includes ''503 Content Moderated'' ''Content Moderated''" by simp
  have tr: "isTransient ''503 Content Moderated''" by (simp add: isTransient_def)
  from moderation_error_never_retried [OF b err md, of 0 "[]"] tr
  show ?thesis by simp
qed




section \<open>The timeout and the requests issued\<close>

text \<open>
  C6. Every pass of the loop, whatever the retry counter with which it is entered, first
  compares the elapsed time with the timeout: when the elapsed time is strictly greater
  the call fails with Timeout in that pass, without a request and whatever the reply
  would have been. A call fails with Timeout only so: the pass in which it does is the
  first whose clock reading exceeds the timeout, and one request was made in each pass
  before it. After a transient failure the retry goes through the same check, so a task
  that is Ready by then is not fetched any more.
\<close>

theorem timeout_checked_before_every_attempt:
  "(\<forall>now. in_budget opts startTime now = (of_int (now - startTime) / 1000 \<le> timeout opts))
   \<and> (\<forall>retries now reply rest.
        \<not> in_budget opts startTime now \<longrightarrow>
        poll_loop env api taskId opts startTime retries ((now, reply) # rest)
          = (Some (Failed (Timeout (timeout opts))), []))
   \<and> (\<forall>script t tr.
        waitForResult env api taskId opts (startTime, script) = (Some (Failed (Timeout t)), tr) \<longrightarrow>
        (\<exists>pre now reply post.
           script = pre @ (now, reply) # post
           \<and> \<not> in_budget opts startTime now
           \<and> (\<forall>(n, r) \<in> set pre. in_budget opts startTime n)
           \<and> t = timeout opts
           \<and> (apiKey api \<noteq> [] \<longrightarrow> fetches tr = length pre)))
   \<and> (\<forall>t1 rep1 t2 ready rest.
        apiKey api \<noteq> [] \<and> 0 < maxRetries opts
          \<and> in_budget opts startTime t1 \<and> transient_failure env api taskId opts rep1
          \<and> \<not> in_budget opts startTime t2 \<longrightarrow>
        (\<exists>req. waitForResult env api taskId opts (startTime, (t1, rep1) # (t2, Resolves ready) # rest)
                 = (Some (Failed (Timeout (timeout opts))), [Request req, Pause 2])))"
proof (intro conjI allI impI)
  fix now
  show "in_budget opts startTime now = (of_int (now - startTime) / 1000 \<le> timeout opts)"
    by (auto simp add: in_budget_def)
next
  fix retries now reply rest
  assume "\<not> in_budget opts startTime now"
  from iteration_timeout [OF this]
  show "poll_loop env api taskId opts startTime retries ((now, reply) # rest)
          = (Some (Failed (Timeout (timeout opts))), [])"
    by (rule poll_loop_done)
next
  fix script t tr
  assume "waitForResult env api taskId opts (startTime, script) = (Some (Failed (Timeout t)), tr)"
  then have "poll_loop env api taskId opts startTime 0 script = (Some (Failed (Timeout t)), tr)"
    by (simp add: waitForResult_def)
  then show "\<exists>pre now reply post.
           script = pre @ (now, reply) # post
           \<and> \<not> in_budget opts startTime now
           \<and> (\<forall>(n, r) \<in> set pre. in_budget opts startTime n)
           \<and> t = timeout opts
           \<and> (apiKey api \<noteq> [] \<longrightarrow> fetches tr = length pre)"
    by (rule timeout_only_when_exceeded)
next
  fix t1 rep1 t2 rest and ready :: task_result
  assume h: "apiKey api \<noteq> [] \<and> 0 < maxRetries opts
          \<and> in_budget opts startTime t1 \<and> transient_failure env api taskId opts rep1
          \<and> \<not> in_budget opts startTime t2"
  then have key: "apiKey api \<noteq> []" and lt: "0 < maxRetries opts"
    and b: "in_budget opts startTime t1" and tf: "transient_failure env api taskId opts rep1"
    and late: "\<not> in_budget opts startTime t2" by simp_all
  from poll_loop_retry [OF key b tf lt] obtain req where
    s1: "poll_loop env api taskId opts startTime 0 ((t1, rep1) # (t2, Resolves ready) # rest) =
           (case poll_loop env api taskId opts startTime (0 + 1) ((t2, Resolves ready) # rest) of
              (res, tr) \<Rightarrow> (res, [Request req, Pause (2 ^ (0 + 1))] @ tr))" by blast
  from iteration_timeout [OF late]
  have "poll_loop env api taskId opts startTime (0 + 1) ((t2, Resolves ready) # rest)
          = (Some (Failed (Timeout (timeout opts))), [])"
    by (rule poll_loop_done)
  with s1 show "\<exists>req. waitForResult env api taskId opts (startTime, (t1, rep1) # (t2, Resolves ready) # rest)
                 = (Some (Failed (Timeout (timeout opts))), [Request req, Pause 2])"
    by (simp add: waitForResult_def)
qed

theorem timeout_checked_before_every_attempt_witness:
  "in_budget default_options 0 300000 \<and> \<not> in_budget default_options 0 300001
   \<and> waitForResult sample_env sample_api ''task_123'' default_options
          (0, [(300001, Resolves sample_ready)])
        = (Some (Failed (Timeout 300)), [])
   \<and> (\<exists>req. waitForResult sample_env sample_api ''task_123'' default_options
          (0, [(298000, transport_error ''503 Service Unavailable''), (300001, Resolves sample_ready)])
        = (Some (Failed (Timeout 300)), [Request req, Pause 2]))
   \<and> (\<exists>pre now reply post.
          [(298000, transport_error ''503 Service Unavailable''), (300001, Resolves sample_ready)]
            = pre @ (now, reply) # post
          \<and> \<not> in_budget default_options 0 now \<and> length pre = 1)"
proof -
  note main = timeout_checked_before_every_attempt
     [of default_options 0 sample_env sample_api "''task_123''"]
  have key: "apiKey sample_api \<noteq> []" by (simp add: sample_api_def)
  have b: "in_budget default_options 0 300000" "in_budget default_options 0 298000"
    and late: "\<not> in_budget default_options 0 300001"
    using main by (simp_all add: default_fields)
  from main late
  have "poll_loop sample_env sample_api ''task_123'' default_options 0 0
          ((300001, Resolves sample_ready) # []) = (Some (Failed (Timeout (timeout default_options))), [])"
    by blast
  then have direct: "waitForResult sample_env sample_api ''task_123'' default_options
          (0, [(300001, Resolves sample_ready)]) = (Some (Failed (Timeout 300)), [])"
    by (simp add: waitForResult_def default_fields)
  have tf: "transient_failure sample_env sample_api ''task_123'' default_options
              (transport_error ''503 Service Unavailable'')"
    unfolding transport_error_def
    by (rule transport_error_transient [OF key]) (simp_all add: isTransient_def isModeration_def)
  have "0 < maxRetries default_options" by (simp add: default_fields)
  with main key b late tf obtain req where
    run: "waitForResult sample_env sample_api ''task_123'' default_options
          (0, [(298000, transport_error ''503 Service Unavailable''), (300001, Resolves sample_ready)])
        = (Some (Failed (Timeout (timeout default_options))), [Request req, Pause 2])"
    by blast
  with main key obtain pre now reply post where
    d: "[(298000, transport_error ''503 Service Unavailable''), (300001, Resolves sample_ready)]
            = pre @ (now, reply) # post"
       "\<not> in_budget default_options 0 now"
       "fetches [Request req, Pause 2] = length pre"
    by blast
  from d(3) have "length pre = 1" by (simp add: fetches_def)
  with d(1,2) run b(1) late direct show ?thesis by (auto simp add: default_fields)
qed

text \<open>
  C5, where the code departs from it. With a polling URL the status fetch goes to the HTTP
  client directly: the request carries the \<^verbatim>\<open>x-key\<close> header but neither the 30-second
  timeout nor the redirect limit. Without a polling URL it goes through the request
  facade and carries both.
\<close>

theorem polling_url_fetch_bypasses_facade:
  "waitForResult sample_env sample_api ''task_123''
      (default_options\<lparr>pollingUrl := Some ''https://api.eu2.bfl.ai/v1/get_result?id=task_123''\<rparr>)
      (0, [(0, Resolves sample_ready)])
     = (Some (Completed sample_ready),
        [Request \<lparr>req_method = GET, req_url = ''https://api.eu2.bfl.ai/v1/get_result?id=task_123'',
                  req_headers = [(''accept'', ''application/json''),
                                 (''x-key'', ''test_api_key_for_unit_tests'')],
                  req_body = None, req_timeout = None, req_maxRedirects = None\<rparr>])
   \<and> waitForResult sample_env sample_api ''task_123'' default_options (0, [(0, Resolves sample_ready)])
     = (Some (Completed sample_ready),
        [Request \<lparr>req_method = GET, req_url = ''https://api.bfl.ai/v1/get_result?id=task_123'',
                  req_headers = [(''accept'', ''application/json''),
                                 (''x-key'', ''test_api_key_for_unit_tests''),
                                 (''Content-Type'', ''application/json'')],
                  req_body = None, req_timeout = Some 30000, req_maxRedirects = Some 5\<rparr>])"
proof -
  let ?u = "''https://api.eu2.bfl.ai/v1/get_result?id=task_123''"
  let ?o = "default_options\<lparr>pollingUrl := Some ?u\<rparr>"
  let ?req = "\<lparr>req_method = GET, req_url = ?u,
                  req_headers = [(''accept'', ''application/json''),
                                 (''x-key'', ''test_api_key_for_unit_tests'')],
                  req_body = None, req_timeout = None, req_maxRedirects = None\<rparr>"
  have "getResult sample_env sample_api ''task_123'' (Some ?u) (Resolves sample_ready)
          = ([Request ?req], Inr sample_ready)"
    by (simp add: getResult_def verifyApiKey_def truthy_def sample_api_def)
  then have a: "attempt sample_env sample_api ''task_123'' (pollingUrl ?o) (Resolves sample_ready)
          = ([Request ?req], Returned sample_ready)"
    by (simp add: attempt_def check_status_def sample_ready_def)
  have b: "in_budget ?o 0 0" by (simp add: in_budget_def default_options_def)
  from iteration_returned [OF b a]
  have "poll_loop sample_env sample_api ''task_123'' ?o 0 0 ((0, Resolves sample_ready) # [])
          = (Some (Completed sample_ready), [Request ?req])"
    by (rule poll_loop_done)
  then have first: "waitForResult sample_env sample_api ''task_123'' ?o (0, [(0, Resolves sample_ready)])
     = (Some (Completed sample_ready), [Request ?req])"
    by (simp add: waitForResult_def)
  have "attempt sample_env sample_api ''task_123'' (pollingUrl default_options) (Resolves sample_ready)
          = ([Request sample_request], Returned sample_ready)"
    by (simp add: default_fields attempt_sample_ready)
  from iteration_returned [OF in_budget_default(1) this]
  have "poll_loop sample_env sample_api ''task_123'' default_options 0 0 ((0, Resolves sample_ready) # [])
          = (Some (Completed sample_ready), [Request sample_request])"
    by (rule poll_loop_done)
  then have second: "waitForResult sample_env sample_api ''task_123'' default_options
        (0, [(0, Resolves sample_ready)]) = (Some (Completed sample_ready), [Request sample_request])"
    by (simp add: waitForResult_def)
  from first second show ?thesis by (simp add: sample_request_def)
qed

section \<open>Redaction of the API key\<close>







section \<open>Construction\<close>

text \<open>
  C10. A base URL that is a non-empty string not starting with \<^verbatim>\<open>https://\<close> makes the
  constructor throw, whatever the key and the environment, so no instance exists to
  issue a request. The default base URL and the empty string pass the check, and with
  a key supplied (as an option or, failing that, in the environment) the construction
  succeeds, the empty base URL being kept as it is.
\<close>

theorem constructor_requires_https:
  "(\<forall>u. opt_baseUrl opts = Some u \<and> u \<noteq> [] \<and> \<not> startsWith u ''https://''
        \<longrightarrow> construct env opts = Inl InsecureBaseUrl)
   \<and> (opt_baseUrl opts = None \<or> opt_baseUrl opts = Some []
        \<longrightarrow> construct env opts \<noteq> Inl InsecureBaseUrl)
   \<and> (\<forall>k. opt_baseUrl opts = None \<and> opt_apiKey opts = Some k \<and> k \<noteq> []
        \<longrightarrow> construct env opts = Inr \<lparr>apiKey = k, baseUrl = BASE_URL\<rparr>)
   \<and> (\<forall>k. opt_baseUrl opts = None \<and> \<not> truthy (opt_apiKey opts)
          \<and> BFL_API_KEY env = Some k \<and> k \<noteq> []
        \<longrightarrow> construct env opts = Inr \<lparr>apiKey = k, baseUrl = BASE_URL\<rparr>)
   \<and> (\<forall>k. opt_baseUrl opts = Some [] \<and> opt_apiKey opts = Some k \<and> k \<noteq> []
        \<longrightarrow> construct env opts = Inr \<lparr>apiKey = k, baseUrl = []\<rparr>)"
  by (auto simp add: construct_def BASE_URL_def getBflApiKey_def truthy_def
        split: option.splits sum.splits)

theorem constructor_requires_https_witness:
  "construct \<lparr>BFL_API_KEY = None, NODE_ENV = None\<rparr>
      \<lparr>opt_apiKey = Some ''test_api_key_for_unit_tests'', opt_baseUrl = Some ''http://api.bfl.ai''\<rparr>
     = Inl InsecureBaseUrl
   \<and> construct \<lparr>BFL_API_KEY = None, NODE_ENV = None\<rparr>
      \<lparr>opt_apiKey = Some ''test_api_key_for_unit_tests'', opt_baseUrl = None\<rparr>
     = Inr \<lparr>apiKey = ''test_api_key_for_unit_tests'', baseUrl = ''https://api.bfl.ai''\<rparr>
   \<and> construct \<lparr>BFL_API_KEY = Some ''key_from_the_environment'', NODE_ENV = None\<rparr>
      \<lparr>opt_apiKey = None, opt_baseUrl = None\<rparr>
     = Inr \<lparr>apiKey = ''key_from_the_environment'', baseUrl = ''https://api.bfl.ai''\<rparr>
   \<and> construct \<lparr>BFL_API_KEY = None, NODE_ENV = None\<rparr>
      \<lparr>opt_apiKey = Some ''test_api_key_for_unit_tests'', opt_baseUrl = Some []\<rparr>
     = Inr \<lparr>apiKey = ''test_api_key_for_unit_tests'', baseUrl = []\<rparr>"
proof -
  have "\<not> startsWith ''http://api.bfl.ai'' ''https://''" by simp
  with constructor_requires_https
    [of "\<lparr>opt_apiKey = Some ''test_api_key_for_unit_tests'', opt_baseUrl = Some ''http://api.bfl.ai''\<rparr>"
        "\<lparr>BFL_API_KEY = None, NODE_ENV = None\<rparr>"]
  have a: "construct \<lparr>BFL_API_KEY = None, NODE_ENV = None\<rparr>
      \<lparr>opt_apiKey = Some ''test_api_key_for_unit_tests'', opt_baseUrl = Some ''http://api.bfl.ai''\<rparr>
     = Inl InsecureBaseUrl" by simp
  from constructor_requires_https
    [of "\<lparr>opt_apiKey = Some ''test_api_key_for_unit_tests'', opt_baseUrl = None\<rparr>"
        "\<lparr>BFL_API_KEY = None, NODE_ENV = None\<rparr>"]
  have b: "construct \<lparr>BFL_API_KEY = None, NODE_ENV = None\<rparr>
      \<lparr>opt_apiKey = Some ''test_api_key_for_unit_tests'', opt_baseUrl = None\<rparr>
     = Inr \<lparr>apiKey = ''test_api_key_for_unit_tests'', baseUrl = ''https://api.bfl.ai''\<rparr>"
    by (simp add: BASE_URL_def)
  have "\<not> truthy None" by (simp add: truthy_def)
  with constructor_requires_https
    [of "\<lparr>opt_apiKey = None, opt_baseUrl = None\<rparr>"
        "\<lparr>BFL_API_KEY = Some ''key_from_the_environment'', NODE_ENV = None\<rparr>"]
  have e: "construct \<lparr>BFL_API_KEY = Some ''key_from_the_environment'', NODE_ENV = None\<rparr>
      \<lparr>opt_apiKey = None, opt_baseUrl = None\<rparr>
     = Inr \<lparr>apiKey = ''key_from_the_environment'', baseUrl = ''https://api.bfl.ai''\<rparr>"
    by (simp add: BASE_URL_def)
  from constructor_requires_https
    [of "\<lparr>opt_apiKey = Some ''test_api_key_for_unit_tests'', opt_baseUrl = Some []\<rparr>"
        "\<lparr>BFL_API_KEY = None, NODE_ENV = None\<rparr>"]
  have c: "construct \<lparr>BFL_API_KEY = None, NODE_ENV = None\<rparr>
      \<lparr>opt_apiKey = Some ''test_api_key_for_unit_tests'', opt_baseUrl = Some []\<rparr>
     = Inr \<lparr>apiKey = ''test_api_key_for_unit_tests'', baseUrl = []\<rparr>" by simp
  from a b e c show ?thesis by (intro conjI)
qed

section \<open>Properties of remote-origin validation\<close>

























end
